theory Spec2Isabelle
  imports Main "HOL-Library.Sublist"
begin

section \<open>Values shared by the remote client and the agent handlers\<close>

text \<open>
  Strings are lists of characters.  A JavaScript value that may be \<^verbatim>\<open>undefined\<close> or
  \<^verbatim>\<open>null\<close> is an \<open>option\<close>; for a string, "truthy" means present and non-empty.
\<close>

definition truthy :: "string option \<Rightarrow> bool" where
  "truthy v = (case v of None \<Rightarrow> False | Some s \<Rightarrow> s \<noteq> [])"

text \<open>Decimal rendering of a number inside a template literal.\<close>

fun show_nat :: "nat \<Rightarrow> string" where
  "show_nat n =
     (if n < 10 then [''0123456789'' ! n]
      else show_nat (n div 10) @ [''0123456789'' ! (n mod 10)])"

declare show_nat.simps [simp del]

text \<open>A template literal prints an absent value as the word \<^verbatim>\<open>undefined\<close>.\<close>

definition show_opt :: "string option \<Rightarrow> string" where
  "show_opt v = (case v of None \<Rightarrow> ''undefined'' | Some s \<Rightarrow> s)"

text \<open>Parsed JSON, as far as the code inspects it.\<close>

datatype json =
    JNull
  | JBool bool
  | JNum int
  | JStr string
  | JArr "json list"
  | JObj "(string \<times> json) list"

text \<open>
  Everything the code can throw.  The library errors carry the argument their constructor
  was given; \<open>Error\<close> is the plain error of the streamed \<^verbatim>\<open>error\<close> event, whose
  argument is whatever the server sent.
\<close>

datatype thrown =
    StagehandAPIError "string option"
  | StagehandAPIUnauthorizedError string
  | StagehandHttpError string
  | StagehandResponseBodyError
  | StagehandResponseParseError string
  | StagehandServerError string
  | Error "json option"
  | SyntaxError string
  | TypeError string

text \<open>One call of the logger: a structured line, or the payload of a streamed log event.\<close>

datatype log_entry =
    LogLine string string nat
  | LogEvent "json option"

section \<open>The remote session client\<close>

record http_request =
  req_method :: string
  req_path :: string

text \<open>
  The client object: its fields, and (to make effects visible) the requests it has sent
  and the lines it has logged, oldest first.
\<close>

record client =
  apiKey :: string
  projectId :: string
  sessionId :: "string option"
  modelApiKey :: "string option"
  sent :: "http_request list"
  logged :: "log_entry list"

definition logger :: "log_entry \<Rightarrow> client \<Rightarrow> client" where
  "logger l c = c\<lparr>logged := logged c @ [l]\<rparr>"

text \<open>
  \<^verbatim>\<open>request\<close> sends one HTTP request; the server is a function from the request to its
  response.
\<close>

definition request :: "(http_request \<Rightarrow> 'r) \<Rightarrow> string \<Rightarrow> string \<Rightarrow> client \<Rightarrow> 'r \<times> client" where
  "request server path m c =
     (let rq = \<lparr>req_method = m, req_path = path\<rparr>
      in (server rq, c\<lparr>sent := sent c @ [rq]\<rparr>))"

subsection \<open>init\<close>

text \<open>
  The parameters of \<^verbatim>\<open>init\<close> that decide its control flow; the remaining ones
  (model name, timeouts, prompt) only travel in the request body.
\<close>

record start_session_params =
  p_modelApiKey :: "string option"
  p_region :: "string option"
  p_browserbaseSessionID :: "string option"

record start_session_result =
  r_sessionId :: "string option"
  r_available :: "bool option"

text \<open>
  The payload \<^verbatim>\<open>{success, data: {sessionId, available}, message?}\<close> of the session-start
  response, and the response itself: its status, its body as text, and its body as JSON
  (\<open>Inl\<close> when the body does not parse, with the parser's message).
\<close>

record start_session_body =
  b_success :: bool
  b_data :: "start_session_result option"
  b_message :: "string option"

record start_session_response =
  s_status :: nat
  s_text :: string
  s_json :: "string + start_session_body"

definition init ::
  "(http_request \<Rightarrow> start_session_response) \<Rightarrow> start_session_params \<Rightarrow> client
    \<Rightarrow> (thrown + start_session_result) \<times> client" where
  "init server p c =
     (if \<not> truthy (p_modelApiKey p)
      then (Inl (StagehandAPIError (Some ''modelApiKey is required'')), c)
      else
        let c1 = c\<lparr>modelApiKey := p_modelApiKey p\<rparr> in
        if truthy (p_region p) \<and> p_region p \<noteq> Some ''us-west-2''
        then (Inr \<lparr>r_sessionId = p_browserbaseSessionID p, r_available = Some False\<rparr>, c1)
        else
          let c2 = logger (LogLine ''init'' ''Creating new browserbase session...'' 1) c1;
              (sessionResponse, c3) = request server ''/sessions/start'' ''POST'' c2
          in
          if s_status sessionResponse = 401
          then (Inl (StagehandAPIUnauthorizedError
                       ''Unauthorized. Ensure you provided a valid API key.''), c3)
          else if s_status sessionResponse \<noteq> 200
          then (Inl (StagehandHttpError
                       (''Unknown error: '' @ show_nat (s_status sessionResponse))),
                logger (LogLine ''api''
                          (''API error ('' @ show_nat (s_status sessionResponse) @ ''): ''
                             @ s_text sessionResponse) 0) c3)
          else
            (case s_json sessionResponse of
               Inl m \<Rightarrow> (Inl (SyntaxError m), c3)
             | Inr sessionResponseBody \<Rightarrow>
                 if b_success sessionResponseBody = False
                 then (Inl (StagehandAPIError (b_message sessionResponseBody)), c3)
                 else
                   (case b_data sessionResponseBody of
                      None \<Rightarrow> (Inl (TypeError ''data is undefined''), c3)
                    | Some d \<Rightarrow>
                        let c4 = c3\<lparr>sessionId := r_sessionId d\<rparr>;
                            d' = (if r_available d \<noteq> Some True
                                     \<and> truthy (p_browserbaseSessionID p)
                                  then d\<lparr>r_sessionId := p_browserbaseSessionID p\<rparr>
                                  else d)
                        in (Inr d', c4))))"

text \<open>The session teardown uses the stored identifier in its path.\<close>

definition end_session ::
  "(http_request \<Rightarrow> 'r) \<Rightarrow> client \<Rightarrow> 'r \<times> client" where
  "end_session server c =
     request server (''/sessions/'' @ show_opt (sessionId c) @ ''/end'') ''POST'' c"

subsection \<open>getReplayMetrics\<close>









text \<open>\<^verbatim>\<open>x || 0\<close> on a number that may be absent.\<close>

definition or0 :: "int option \<Rightarrow> int" where
  "or0 v = (case v of None \<Rightarrow> 0 | Some n \<Rightarrow> n)"


















subsection \<open>execute: dispatching an operation and decoding its streamed response\<close>

text \<open>
  \<^verbatim>\<open>buffer.split("\n\n")\<close>: the pieces between the leftmost, non-overlapping occurrences
  of two line feeds.  The result is never empty.
\<close>

fun split_records :: "string \<Rightarrow> string list" where
  "split_records [] = [[]]"
| "split_records [c] = [[c]]"
| "split_records (c # d # cs) =
     (if c = CHR 0x0A \<and> d = CHR 0x0A then [] # split_records cs
      else (case split_records (d # cs) of
              [] \<Rightarrow> [[c]]
            | s # ss \<Rightarrow> (c # s) # ss))"

text \<open>
  \<^verbatim>\<open>trim\<close>, for the white space that occurs in single-byte text (tab, line feed,
  vertical tab, form feed, carriage return, space).
\<close>

definition is_space :: "char \<Rightarrow> bool" where
  "is_space ch = (ch \<in> set [CHR 0x09, CHR 0x0A, CHR 0x0B, CHR 0x0C, CHR 0x0D, CHR 0x20])"

definition trim :: "string \<Rightarrow> string" where
  "trim s = rev (dropWhile is_space (rev (dropWhile is_space s)))"

text \<open>
  Reading a property of a parsed value: \<^verbatim>\<open>undefined\<close> and \<^verbatim>\<open>null\<close> throw a
  \<^verbatim>\<open>TypeError\<close> (recorded with the property's name), an object yields the member or
  \<^verbatim>\<open>undefined\<close>, and any other value has none of the members the code asks for.
  \<open>opt_js_member\<close> is the optional chaining \<^verbatim>\<open>v?.k\<close>.
\<close>

fun js_member :: "string \<Rightarrow> json option \<Rightarrow> thrown + json option" where
  "js_member k None = Inl (TypeError k)"
| "js_member k (Some JNull) = Inl (TypeError k)"
| "js_member k (Some (JObj kvs)) = Inr (map_of kvs k)"
| "js_member k (Some v) = Inr None"

fun opt_js_member :: "string \<Rightarrow> json option \<Rightarrow> json option" where
  "opt_js_member k None = None"
| "opt_js_member k (Some JNull) = None"
| "opt_js_member k (Some (JObj kvs)) = map_of kvs k"
| "opt_js_member k (Some v) = None"

text \<open>
  The body of the \<^verbatim>\<open>try\<close> block once the record has been parsed.  The result is the
  thrown value, or \<open>Inr (Some r)\<close> when the function returns \<open>r\<close>, or \<open>Inr None\<close> when
  the loop goes on to the next record; the second component lists the logger calls.
\<close>

definition handle_event :: "json option \<Rightarrow> (thrown + json option option) \<times> log_entry list" where
  "handle_event eventData =
     (case js_member ''type'' eventData of
        Inl e \<Rightarrow> (Inl e, [])
      | Inr ty \<Rightarrow>
          if ty = Some (JStr ''system'') then
            (case js_member ''data'' eventData of
               Inl e \<Rightarrow> (Inl e, [])
             | Inr d \<Rightarrow>
                 (case js_member ''status'' d of
                    Inl e \<Rightarrow> (Inl e, [])
                  | Inr st \<Rightarrow>
                      if st = Some (JStr ''error'') then
                        (case js_member ''error'' d of
                           Inl e \<Rightarrow> (Inl e, [])
                         | Inr errorMsg \<Rightarrow> (Inl (Error errorMsg), []))
                      else if st = Some (JStr ''finished'') then
                        (case js_member ''result'' d of
                           Inl e \<Rightarrow> (Inl e, [])
                         | Inr r \<Rightarrow> (Inr (Some r), []))
                      else (Inr None, [])))
          else if ty = Some (JStr ''log'') then
            (case js_member ''data'' eventData of
               Inl e \<Rightarrow> (Inl e, [])
             | Inr d \<Rightarrow>
                 (case js_member ''message'' d of
                    Inl e \<Rightarrow> (Inl e, [])
                  | Inr msg \<Rightarrow>
                      if opt_js_member ''message'' msg = Some (JStr ''Connecting to local browser'')
                      then (Inr None, [])
                      else (Inr None, [LogEvent msg])))
          else (Inr None, []))"

text \<open>
  The \<^verbatim>\<open>catch\<close> block.  Every value thrown inside the \<^verbatim>\<open>try\<close> block is an
  \<^verbatim>\<open>Error\<close> instance; only a \<^verbatim>\<open>SyntaxError\<close> is wrapped.
\<close>

fun catch_parse :: "thrown \<Rightarrow> thrown \<times> log_entry list" where
  "catch_parse (SyntaxError errorMessage) =
     (StagehandResponseParseError (''Failed to parse server response: '' @ errorMessage),
      [LogLine ''api'' (''Failed to parse SSE event: '' @ errorMessage) 0])"
| "catch_parse e = (e, [])"

text \<open>
  One turn of the loop over the complete records.  \<^verbatim>\<open>JSON.parse\<close> is the parameter
  \<open>parse\<close>: \<open>Inl m\<close> is a \<^verbatim>\<open>SyntaxError\<close> with message \<open>m\<close>.
\<close>

definition handle_line ::
  "(string \<Rightarrow> string + json) \<Rightarrow> string \<Rightarrow> (thrown + json option option) \<times> log_entry list" where
  "handle_line parse line =
     (if \<not> prefix ''data: '' line then (Inr None, [])
      else
        (case parse (drop 6 line) of
           Inl m \<Rightarrow> (case catch_parse (SyntaxError m) of (e, ls) \<Rightarrow> (Inl e, ls))
         | Inr eventData \<Rightarrow>
             (case handle_event (Some eventData) of
                (Inl e, ls) \<Rightarrow> (case catch_parse e of (e', ls') \<Rightarrow> (Inl e', ls @ ls'))
              | (Inr r, ls) \<Rightarrow> (Inr r, ls))))"

fun handle_lines ::
  "(string \<Rightarrow> string + json) \<Rightarrow> string list \<Rightarrow> (thrown + json option option) \<times> log_entry list" where
  "handle_lines parse [] = (Inr None, [])"
| "handle_lines parse (line # lines) =
     (case handle_line parse line of
        (Inr None, ls) \<Rightarrow> (case handle_lines parse lines of (r, ls') \<Rightarrow> (r, ls @ ls'))
      | (r, ls) \<Rightarrow> (r, ls))"

text \<open>The last attempt on what is left in the buffer when the stream is done.\<close>

definition final_event :: "json option \<Rightarrow> thrown + json option option" where
  "final_event eventData =
     (case js_member ''type'' eventData of
        Inl e \<Rightarrow> Inl e
      | Inr ty \<Rightarrow>
          if ty = Some (JStr ''system'') then
            (case js_member ''data'' eventData of
               Inl e \<Rightarrow> Inl e
             | Inr d \<Rightarrow>
                 (case js_member ''status'' d of
                    Inl e \<Rightarrow> Inl e
                  | Inr st \<Rightarrow>
                      if st = Some (JStr ''finished'') then
                        (case js_member ''result'' d of Inl e \<Rightarrow> Inl e | Inr r \<Rightarrow> Inr (Some r))
                      else Inr None))
          else Inr None)"

definition final_buffer ::
  "(string \<Rightarrow> string + json) \<Rightarrow> string \<Rightarrow> (thrown + json option) \<times> log_entry list" where
  "final_buffer parse buffer =
     (let incomplete = [LogLine ''api'' (''Incomplete data in final buffer: '' @ take 100 buffer) 0];
          ended = StagehandServerError ''Stream ended without completion signal''
      in
      if trim buffer \<noteq> [] \<and> prefix ''data: '' buffer then
        (case parse (drop 6 buffer) of
           Inl m \<Rightarrow> (Inl ended, incomplete)
         | Inr eventData \<Rightarrow>
             (case final_event (Some eventData) of
                Inl e \<Rightarrow> (Inl ended, incomplete)
              | Inr (Some r) \<Rightarrow> (Inr r, [])
              | Inr None \<Rightarrow> (Inl ended, [])))
      else (Inl ended, []))"

text \<open>
  The read loop.  The body stream is the list of its chunks, already decoded to text;
  reading the empty list is the \<^verbatim>\<open>done\<close> signal.  The result comes with the chunks
  that were never read and with the logger calls.
\<close>

fun read_loop ::
  "(string \<Rightarrow> string + json) \<Rightarrow> string list \<Rightarrow> string
     \<Rightarrow> (thrown + json option) \<times> string list \<times> log_entry list" where
  "read_loop parse [] buffer =
     (if buffer = []
      then (Inl (StagehandServerError ''Stream ended without completion signal''), [], [])
      else
        let lines = split_records buffer in
        (case handle_lines parse (butlast lines) of
           (Inl e, ls) \<Rightarrow> (Inl e, [], ls)
         | (Inr (Some r), ls) \<Rightarrow> (Inr r, [], ls)
         | (Inr None, ls) \<Rightarrow>
             (case final_buffer parse (last lines) of (r, ls') \<Rightarrow> (r, [], ls @ ls'))))"
| "read_loop parse (chunk # rest) buffer =
     (let lines = split_records (buffer @ chunk) in
      (case handle_lines parse (butlast lines) of
         (Inl e, ls) \<Rightarrow> (Inl e, rest, ls)
       | (Inr (Some r), ls) \<Rightarrow> (Inr r, rest, ls)
       | (Inr None, ls) \<Rightarrow>
           (case read_loop parse rest (last lines) of (r, unread, ls') \<Rightarrow> (r, unread, ls @ ls'))))"

text \<open>
  The response to a dispatch: status, the \<^verbatim>\<open>ok\<close> flag, the body as text, and the body
  stream (absent when the response has none).
\<close>

record dispatch_response =
  x_status :: nat
  x_ok :: bool
  x_text :: string
  x_body :: "string list option"

text \<open>
  \<^verbatim>\<open>execute\<close> of the client, with the query string already rendered
  (\<open>[]\<close> when there are no parameters).
\<close>

definition dispatch_url :: "client \<Rightarrow> string \<Rightarrow> string \<Rightarrow> string" where
  "dispatch_url c operation queryString =
     ''/sessions/'' @ show_opt (sessionId c) @ ''/'' @ operation
       @ (if queryString \<noteq> [] then ''?'' @ queryString else [])"

definition execute ::
  "(http_request \<Rightarrow> dispatch_response) \<Rightarrow> (string \<Rightarrow> string + json) \<Rightarrow> string \<Rightarrow> string
     \<Rightarrow> client \<Rightarrow> (thrown + json option) \<times> string list \<times> client" where
  "execute server parse operation queryString c =
     (let url = dispatch_url c operation queryString;
          (response, c1) = request server url ''POST'' c
      in
      if \<not> x_ok response
      then (Inl (StagehandHttpError
                   (''HTTP error! status: '' @ show_nat (x_status response) @ '', body: ''
                      @ x_text response)), [], c1)
      else
        (case x_body response of
           None \<Rightarrow> (Inl StagehandResponseBodyError, [], c1)
         | Some chunks \<Rightarrow>
             (case read_loop parse chunks [] of
                (r, unread, ls) \<Rightarrow> (r, unread, c1\<lparr>logged := logged c1 @ ls\<rparr>))))"









section \<open>The computer-use action executor: the \<^verbatim>\<open>type\<close> action\<close>






text \<open>\<^verbatim>\<open>a || b\<close> on strings.\<close>

definition or_else :: "string \<Rightarrow> string \<Rightarrow> string" where
  "or_else a b = (if a \<noteq> [] then a else b)"







section \<open>The agent handlers\<close>

text \<open>
  What can be thrown during an agent run: the configuration error of the handler, or any
  other value, kept as the text that \<^verbatim>\<open>error?.message ?? String(error)\<close> yields for it.
\<close>

datatype agent_thrown = MissingLLMConfigurationError | Thrown string

text \<open>
  A tool call, with the two arguments the handler reads (\<^verbatim>\<open>args?.taskComplete\<close> as its
  truth value), and the event passed to \<^verbatim>\<open>onStepFinish\<close> after each model step.  The
  event also records what the page reports as its URL once the step's tool calls have
  run, which may fail.
\<close>

record tool_call =
  toolName :: string
  taskComplete :: bool
  tc_reasoning :: "string option"

record step_event =
  ev_text :: string
  ev_toolCalls :: "tool_call list"
  ev_finishReason :: string
  ev_pageUrl :: "agent_thrown + string"

text \<open>Actions and results.  The wall-clock stamps of the source are left out.\<close>

record agent_action =
  aa_type :: string
  aa_reasoning :: "string option"
  aa_pageUrl :: "string option"

record language_model_usage =
  lm_inputTokens :: "int option"
  lm_outputTokens :: "int option"
  lm_reasoningTokens :: "int option"
  lm_cachedInputTokens :: "int option"

record agent_usage =
  input_tokens :: int
  output_tokens :: int
  reasoning_tokens :: int
  cached_input_tokens :: int

record agent_result =
  res_success :: bool
  res_message :: string
  res_actions :: "agent_action list"
  res_completed :: bool
  res_usage :: "agent_usage option"

record agent_execute_options =
  opt_instruction :: string
  opt_maxSteps :: "nat option"

text \<open>
  The run state: the \<^verbatim>\<open>AgentState\<close> of the base variant, which the simplified variant
  keeps in local variables together with its step counter, and the lines logged so far.
\<close>

record agent_state =
  st_collectedReasoning :: "string list"
  st_actions :: "agent_action list"
  st_finalMessage :: string
  st_completed :: bool
  st_currentPageUrl :: string
  st_currentStepNumber :: nat
  st_logged :: "log_entry list"

text \<open>
  The lifecycle hooks.  A hook either raises (\<open>Inl\<close>, with the message that is logged) or
  returns; for \<^verbatim>\<open>on_step_start\<close> the returned value counts as its truth value.
\<close>

record step_start_info =
  ss_stepNumber :: nat
  ss_maxSteps :: nat
  ss_instruction :: string

record step_end_info =
  se_stepNumber :: nat
  se_maxSteps :: nat
  se_instruction :: string
  se_actionsPerformed :: nat
  se_message :: string
  se_completed :: bool

record agent_hooks =
  on_step_start :: "(step_start_info \<Rightarrow> string + bool) option"
  on_step_end :: "(step_end_info \<Rightarrow> string + unit) option"

text \<open>
  The injected model client: whether it offers \<^verbatim>\<open>getLanguageModel\<close>, the step the model
  produces after the steps so far (or the error it raises), and the usage it reports for
  a finished generation.
\<close>

record llm_client =
  hasLanguageModel :: bool
  generateStep :: "step_event list \<Rightarrow> agent_thrown + step_event"
  totalUsage :: "step_event list \<Rightarrow> language_model_usage option"

record agent_handler =
  llmClient :: "llm_client option"
  systemInstructions :: "string option"
  hooks :: "agent_hooks option"

text \<open>
  The rest of the world: the URL of the active page when the run starts (or the failure
  to resolve it), the mapping from a tool call and the step's text to actions, the message
  of the configuration error, and the rendering of a thrown value by a template literal.
  These come from files outside the ones at hand.
\<close>

record agent_env =
  initialPageUrl :: "agent_thrown + string"
  mapToolResultToActions :: "tool_call \<Rightarrow> string \<Rightarrow> agent_action list"
  missingLLMConfigurationMessage :: string
  thrownToString :: "agent_thrown \<Rightarrow> string"

definition errorMessage :: "agent_env \<Rightarrow> agent_thrown \<Rightarrow> string" where
  "errorMessage env e =
     (case e of MissingLLMConfigurationError \<Rightarrow> missingLLMConfigurationMessage env
              | Thrown m \<Rightarrow> m)"

definition agent_log :: "log_entry \<Rightarrow> agent_state \<Rightarrow> agent_state" where
  "agent_log l st = st\<lparr>st_logged := st_logged st @ [l]\<rparr>"

text \<open>\<^verbatim>\<open>join(" ")\<close>.\<close>

fun join_sp :: "string list \<Rightarrow> string" where
  "join_sp [] = []"
| "join_sp [s] = s"
| "join_sp (s # t # ss) = s @ '' '' @ join_sp (t # ss)"

text \<open>The body of the loop over the tool calls of one step; both variants have it.\<close>

definition process_tool_call ::
  "agent_env \<Rightarrow> step_event \<Rightarrow> agent_state \<Rightarrow> tool_call \<Rightarrow> agent_state" where
  "process_tool_call env event st toolCall =
     (let st1 = (if ev_text event \<noteq> []
                 then agent_log (LogLine ''agent'' (''reasoning: '' @ ev_text event) 1)
                        (st\<lparr>st_collectedReasoning := st_collectedReasoning st @ [ev_text event]\<rparr>)
                 else st);
          st2 = (if toolName toolCall = ''close''
                 then
                   (let st' = st1\<lparr>st_completed := True\<rparr> in
                    if taskComplete toolCall
                    then
                      (let allReasoning = join_sp (st_collectedReasoning st')
                       in st'\<lparr>st_finalMessage :=
                                (if truthy (tc_reasoning toolCall)
                                 then trim (allReasoning @ '' '' @ show_opt (tc_reasoning toolCall))
                                 else or_else allReasoning ''Task completed successfully'')\<rparr>)
                    else st')
                 else st1);
          mappedActions = mapToolResultToActions env toolCall (ev_text event)
      in st2\<lparr>st_actions := st_actions st2
                @ map (\<lambda>action. action\<lparr>aa_pageUrl := Some (st_currentPageUrl st2)\<rparr>) mappedActions\<rparr>)"

text \<open>
  The block guarded by \<^verbatim>\<open>event.toolCalls.length > 0\<close>.  The result is the thrown value,
  if any, and the state as it then is.
\<close>

definition handle_tool_calls ::
  "agent_env \<Rightarrow> step_event \<Rightarrow> agent_state \<Rightarrow> agent_thrown option \<times> agent_state" where
  "handle_tool_calls env event st =
     (if ev_toolCalls event \<noteq> []
      then
        (let st' = foldl (process_tool_call env event) st (ev_toolCalls event)
         in case ev_pageUrl event of
              Inl e \<Rightarrow> (Some e, st')
            | Inr url \<Rightarrow> (None, st'\<lparr>st_currentPageUrl := url\<rparr>))
      else (None, st))"

subsection \<open>The generation loop of the model client\<close>

text \<open>
  \<^verbatim>\<open>generateText\<close> belongs to the AI SDK behind the model client, not to this repository.
  Its loop is taken by its documented contract: run one model step, append it to the
  steps, call \<^verbatim>\<open>onStepFinish\<close>, and go on as long as the step made tool calls and the
  \<^verbatim>\<open>stopWhen\<close> condition does not hold for the steps so far.  An error raised by the
  model or by \<^verbatim>\<open>onStepFinish\<close> ends the call.  \<open>None\<close> stands for a loop that never ends.
\<close>

partial_function (option) generateText ::
  "(step_event list \<Rightarrow> agent_thrown + step_event) \<Rightarrow> (step_event list \<Rightarrow> bool)
     \<Rightarrow> (step_event \<Rightarrow> agent_state \<Rightarrow> agent_thrown option \<times> agent_state)
     \<Rightarrow> step_event list \<Rightarrow> agent_state
     \<Rightarrow> ((agent_thrown + step_event list) \<times> agent_state) option" where
  "generateText model stopWhen onStepFinish steps st =
     (case model steps of
        Inl e \<Rightarrow> Some (Inl e, st)
      | Inr step \<Rightarrow>
          (case onStepFinish step st of
             (Some e, st') \<Rightarrow> Some (Inl e, st')
           | (None, st') \<Rightarrow>
               if ev_toolCalls step \<noteq> [] \<and> \<not> stopWhen (steps @ [step])
               then generateText model stopWhen onStepFinish (steps @ [step]) st'
               else Some (Inr (steps @ [step]), st')))"

declare generateText.simps [code]

definition stepCountIs :: "nat \<Rightarrow> step_event list \<Rightarrow> bool" where
  "stepCountIs stepCount steps = (length steps = stepCount)"

subsection \<open>The base variant\<close>

definition has_close :: "step_event \<Rightarrow> bool" where
  "has_close step = list_ex (\<lambda>tc. toolName tc = ''close'') (ev_toolCalls step)"

definition handleStop :: "step_event list \<Rightarrow> nat \<Rightarrow> bool" where
  "handleStop steps maxSteps =
     (if steps \<noteq> [] \<and> has_close (last steps) then True
      else stepCountIs maxSteps steps)"

definition createStepHandler ::
  "agent_env \<Rightarrow> step_event \<Rightarrow> agent_state \<Rightarrow> agent_thrown option \<times> agent_state" where
  "createStepHandler env event st =
     handle_tool_calls env event
       (agent_log (LogLine ''agent'' (''Step finished: '' @ ev_finishReason event) 2) st)"

record agent_context =
  ctx_instruction :: string
  ctx_maxSteps :: nat
  ctx_client :: llm_client
  ctx_initialPageUrl :: string

text \<open>\<^verbatim>\<open>options.maxSteps || d\<close>.\<close>

definition maxSteps_or :: "nat \<Rightarrow> agent_execute_options \<Rightarrow> nat" where
  "maxSteps_or d options =
     (case opt_maxSteps options of None \<Rightarrow> d | Some n \<Rightarrow> if n = 0 then d else n)"

definition prepareAgent ::
  "agent_handler \<Rightarrow> agent_env \<Rightarrow> agent_execute_options
     \<Rightarrow> (agent_thrown + agent_context) \<times> log_entry list" where
  "prepareAgent h env options =
     (let failed = (\<lambda>e. (Inl e,
                     [LogLine ''agent'' (''failed to prepare agent: '' @ thrownToString env e) 0]))
      in
      case llmClient h of
        None \<Rightarrow> failed MissingLLMConfigurationError
      | Some cl \<Rightarrow>
          if \<not> hasLanguageModel cl then failed MissingLLMConfigurationError
          else
            (case initialPageUrl env of
               Inl e \<Rightarrow> failed e
             | Inr url \<Rightarrow>
                 (Inr \<lparr>ctx_instruction = opt_instruction options,
                       ctx_maxSteps = maxSteps_or 20 options,
                       ctx_client = cl, ctx_initialPageUrl = url\<rparr>, [])))"

definition initial_state :: "string \<Rightarrow> log_entry list \<Rightarrow> agent_state" where
  "initial_state url ls =
     \<lparr>st_collectedReasoning = [], st_actions = [], st_finalMessage = [], st_completed = False,
      st_currentPageUrl = url, st_currentStepNumber = 0, st_logged = ls\<rparr>"

definition convert_usage :: "language_model_usage \<Rightarrow> agent_usage" where
  "convert_usage u =
     \<lparr>input_tokens = or0 (lm_inputTokens u), output_tokens = or0 (lm_outputTokens u),
      reasoning_tokens = or0 (lm_reasoningTokens u),
      cached_input_tokens = or0 (lm_cachedInputTokens u)\<rparr>"

text \<open>
  \<^verbatim>\<open>consolidateMetricsAndResult\<close>, given the text and the usage of the generation result;
  the simplified variant has the same lines at the end of its \<^verbatim>\<open>try\<close> block.
\<close>

definition consolidateMetricsAndResult ::
  "agent_state \<Rightarrow> string \<Rightarrow> language_model_usage option \<Rightarrow> agent_result" where
  "consolidateMetricsAndResult st resultText resultUsage =
     (let finalMessage =
            (if st_finalMessage st = []
             then or_else (trim (join_sp (st_collectedReasoning st))) resultText
             else st_finalMessage st)
      in \<lparr>res_success = st_completed st,
          res_message = or_else finalMessage ''Task execution completed'',
          res_actions = st_actions st,
          res_completed = st_completed st,
          res_usage = map_option convert_usage resultUsage\<rparr>)"

text \<open>The \<^verbatim>\<open>catch\<close> block of \<^verbatim>\<open>execute\<close>, the same in both variants.\<close>

definition failed_result :: "agent_env \<Rightarrow> agent_thrown \<Rightarrow> agent_state \<Rightarrow> agent_result \<times> log_entry list" where
  "failed_result env e st =
     (\<lparr>res_success = False,
       res_message = ''Failed to execute task: '' @ errorMessage env e,
       res_actions = st_actions st,
       res_completed = False,
       res_usage = None\<rparr>,
      st_logged st
        @ [LogLine ''agent'' (''Error executing agent task: '' @ errorMessage env e) 0])"

text \<open>
  What the generation loop yields is turned into the outcome of \<^verbatim>\<open>execute\<close>: a result,
  or nothing when the loop does not end.
\<close>

definition finish_run ::
  "agent_env \<Rightarrow> llm_client \<Rightarrow> ((agent_thrown + step_event list) \<times> agent_state) option
     \<Rightarrow> ((agent_thrown + agent_result) \<times> log_entry list) option" where
  "finish_run env cl outcome =
     (case outcome of
        None \<Rightarrow> None
      | Some (Inl e, st) \<Rightarrow>
          (case failed_result env e st of (r, ls) \<Rightarrow> Some (Inr r, ls))
      | Some (Inr steps, st) \<Rightarrow>
          Some (Inr (consolidateMetricsAndResult st (ev_text (last steps)) (totalUsage cl steps)),
                st_logged st))"

text \<open>The generation call of the base variant, and \<^verbatim>\<open>execute\<close> around it.\<close>

definition agent_run ::
  "agent_env \<Rightarrow> agent_context \<Rightarrow> log_entry list
     \<Rightarrow> ((agent_thrown + step_event list) \<times> agent_state) option" where
  "agent_run env ctx ls =
     generateText (generateStep (ctx_client ctx))
       (\<lambda>steps. handleStop steps (ctx_maxSteps ctx))
       (createStepHandler env) [] (initial_state (ctx_initialPageUrl ctx) ls)"

definition agent_execute ::
  "agent_handler \<Rightarrow> agent_env \<Rightarrow> agent_execute_options
     \<Rightarrow> ((agent_thrown + agent_result) \<times> log_entry list) option" where
  "agent_execute h env options =
     (case prepareAgent h env options of
        (Inl e, ls) \<Rightarrow> Some (Inl e, ls)
      | (Inr ctx, ls) \<Rightarrow> finish_run env (ctx_client ctx) (agent_run env ctx ls))"

subsection \<open>The simplified variant, with lifecycle hooks\<close>

definition call_step_start ::
  "agent_handler \<Rightarrow> step_start_info \<Rightarrow> (string + bool) option" where
  "call_step_start h info =
     (case hooks h of
        None \<Rightarrow> None
      | Some hk \<Rightarrow> (case on_step_start hk of None \<Rightarrow> None | Some f \<Rightarrow> Some (f info)))"

definition call_step_end ::
  "agent_handler \<Rightarrow> step_end_info \<Rightarrow> (string + unit) option" where
  "call_step_end h info =
     (case hooks h of
        None \<Rightarrow> None
      | Some hk \<Rightarrow> (case on_step_end hk of None \<Rightarrow> None | Some g \<Rightarrow> Some (g info)))"

text \<open>The \<^verbatim>\<open>onStepFinish\<close> callback of the simplified variant.\<close>

definition onStepFinish ::
  "agent_handler \<Rightarrow> agent_env \<Rightarrow> nat \<Rightarrow> string \<Rightarrow> step_event \<Rightarrow> agent_state
     \<Rightarrow> agent_thrown option \<times> agent_state" where
  "onStepFinish h env maxSteps instr event st0 =
     (let st = st0\<lparr>st_currentStepNumber := st_currentStepNumber st0 + 1\<rparr>;
          stepStartActionsCount = length (st_actions st);
          started =
            (case call_step_start h
                    \<lparr>ss_stepNumber = st_currentStepNumber st, ss_maxSteps = maxSteps,
                     ss_instruction = instr\<rparr> of
               None \<Rightarrow> (False, st)
             | Some (Inr stopProcessing) \<Rightarrow> (stopProcessing, st)
             | Some (Inl hookError) \<Rightarrow>
                 (False, agent_log (LogLine ''agent''
                                      (''Error in on_step_start hook: '' @ hookError) 0) st))
      in
      if fst started then (None, (snd started)\<lparr>st_completed := True\<rparr>)
      else
        (case handle_tool_calls env event
                (agent_log (LogLine ''agent'' (''Step finished: '' @ ev_finishReason event) 2)
                   (snd started)) of
           (Some e, st') \<Rightarrow> (Some e, st')
         | (None, st') \<Rightarrow>
             (case call_step_end h
                     \<lparr>se_stepNumber = st_currentStepNumber st', se_maxSteps = maxSteps,
                      se_instruction = instr,
                      se_actionsPerformed = length (st_actions st') - stepStartActionsCount,
                      se_message = ev_text event, se_completed = st_completed st'\<rparr> of
                Some (Inl hookError) \<Rightarrow>
                  (None, agent_log (LogLine ''agent''
                                      (''Error in on_step_end hook: '' @ hookError) 0) st')
              | _ \<Rightarrow> (None, st'))))"

definition simplified_run ::
  "agent_handler \<Rightarrow> agent_env \<Rightarrow> agent_execute_options \<Rightarrow> llm_client \<Rightarrow> string
     \<Rightarrow> ((agent_thrown + step_event list) \<times> agent_state) option" where
  "simplified_run h env options cl url =
     generateText (generateStep cl) (stepCountIs (maxSteps_or 10 options))
       (onStepFinish h env (maxSteps_or 10 options) (opt_instruction options)) []
       (initial_state url [])"

definition agent_execute_simplified ::
  "agent_handler \<Rightarrow> agent_env \<Rightarrow> agent_execute_options
     \<Rightarrow> ((agent_thrown + agent_result) \<times> log_entry list) option" where
  "agent_execute_simplified h env options =
     (case initialPageUrl env of
        Inl e \<Rightarrow> Some (Inl e, [])
      | Inr url \<Rightarrow>
          (case llmClient h of
             None \<Rightarrow>
               (case failed_result env MissingLLMConfigurationError (initial_state url []) of
                  (r, ls) \<Rightarrow> Some (Inr r, ls))
           | Some cl \<Rightarrow>
               if \<not> hasLanguageModel cl
               then (case failed_result env MissingLLMConfigurationError (initial_state url []) of
                       (r, ls) \<Rightarrow> Some (Inr r, ls))
               else finish_run env cl (simplified_run h env options cl url)))"

section \<open>Concrete inputs\<close>

text \<open>Small inputs on which the theorems below are instantiated and the code is run.\<close>

definition ex_client :: client where
  "ex_client =
     \<lparr>apiKey = ''key'', projectId = ''project'', sessionId = None, modelApiKey = None,
      sent = [], logged = []\<rparr>"

definition ex_params :: "string \<Rightarrow> string option \<Rightarrow> start_session_params" where
  "ex_params k r =
     \<lparr>p_modelApiKey = Some k, p_region = r, p_browserbaseSessionID = Some ''ext''\<rparr>"

definition ex_body :: "bool \<Rightarrow> bool \<Rightarrow> start_session_body" where
  "ex_body ok a =
     \<lparr>b_success = ok,
      b_data = Some \<lparr>r_sessionId = Some ''srv'', r_available = Some a\<rparr>,
      b_message = Some ''no capacity''\<rparr>"

definition ex_server ::
  "nat \<Rightarrow> string \<Rightarrow> (string + start_session_body) \<Rightarrow> http_request \<Rightarrow> start_session_response" where
  "ex_server st t j rq = \<lparr>s_status = st, s_text = t, s_json = j\<rparr>"























text \<open>An agent world, model steps that call one tool, and three models.\<close>

definition ex_env :: agent_env where
  "ex_env =
     \<lparr>initialPageUrl = Inr ''https://a.test'',
      mapToolResultToActions =
        (\<lambda>tc t. [\<lparr>aa_type = toolName tc, aa_reasoning = (if t = [] then None else Some t),
                   aa_pageUrl = None\<rparr>]),
      missingLLMConfigurationMessage = ''No LLM client configured'',
      thrownToString = (\<lambda>e. ''Error'')\<rparr>"

definition ex_step :: "string \<Rightarrow> step_event" where
  "ex_step name =
     \<lparr>ev_text = ''next'',
      ev_toolCalls = [\<lparr>toolName = name, taskComplete = True, tc_reasoning = Some ''done''\<rparr>],
      ev_finishReason = ''tool-calls'',
      ev_pageUrl = Inr ''https://a.test''\<rparr>"

definition ex_model_never_close :: "step_event list \<Rightarrow> agent_thrown + step_event" where
  "ex_model_never_close steps = Inr (ex_step ''act'')"

definition ex_model_close_first :: "step_event list \<Rightarrow> agent_thrown + step_event" where
  "ex_model_close_first steps = (if steps = [] then Inr (ex_step ''close'') else Inr (ex_step ''act''))"

definition ex_model_fail_second :: "step_event list \<Rightarrow> agent_thrown + step_event" where
  "ex_model_fail_second steps =
     (if length steps = 1 then Inl (Thrown ''rate limited'') else Inr (ex_step ''act''))"

definition ex_llm :: "(step_event list \<Rightarrow> agent_thrown + step_event) \<Rightarrow> llm_client" where
  "ex_llm model = \<lparr>hasLanguageModel = True, generateStep = model, totalUsage = (\<lambda>steps. None)\<rparr>"

definition ex_handler ::
  "(step_event list \<Rightarrow> agent_thrown + step_event) \<Rightarrow> agent_hooks option \<Rightarrow> agent_handler" where
  "ex_handler model hk = \<lparr>llmClient = Some (ex_llm model), systemInstructions = None, hooks = hk\<rparr>"

definition ex_unconfigured :: agent_handler where
  "ex_unconfigured = \<lparr>llmClient = None, systemInstructions = None, hooks = None\<rparr>"

definition ex_options :: "nat option \<Rightarrow> agent_execute_options" where
  "ex_options n = \<lparr>opt_instruction = ''do it'', opt_maxSteps = n\<rparr>"

definition ex_raising_hooks :: agent_hooks where
  "ex_raising_hooks =
     \<lparr>on_step_start = Some (\<lambda>info. Inl ''start broke''),
      on_step_end = Some (\<lambda>info. Inl ''end broke'')\<rparr>"

definition ex_ctx :: "(step_event list \<Rightarrow> agent_thrown + step_event) \<Rightarrow> nat \<Rightarrow> agent_context" where
  "ex_ctx model n =
     \<lparr>ctx_instruction = ''do it'', ctx_maxSteps = n, ctx_client = ex_llm model,
      ctx_initialPageUrl = ''https://a.test''\<rparr>"

section \<open>Session start\<close>

lemma show_nat_500: "show_nat 500 = ''500''"
  by (simp add: show_nat.simps)

text \<open>
  C10, as amended.  For every \<^verbatim>\<open>init\<close> call with a non-empty model API key whose
  session-creation parameters name a non-empty region other than \<^verbatim>\<open>us-west-2\<close>, the call
  returns the caller's external session id (or null) with \<^verbatim>\<open>available: false\<close>, sends
  no HTTP request and leaves the client's session id as it was.
\<close>

theorem init_other_region:
  assumes "truthy (p_modelApiKey p)"
    and "truthy (p_region p)"
    and "p_region p \<noteq> Some ''us-west-2''"
  shows "fst (init server p c)
           = Inr \<lparr>r_sessionId = p_browserbaseSessionID p, r_available = Some False\<rparr>
       \<and> sent (snd (init server p c)) = sent c
       \<and> sessionId (snd (init server p c)) = sessionId c"
  using assms by (simp add: init_def)

text \<open>The amended C10 at a call for the region \<^verbatim>\<open>eu-central-1\<close>.\<close>

theorem init_other_region_witness:
  "truthy (p_modelApiKey (ex_params ''m'' (Some ''eu-central-1'')))
   \<and> truthy (p_region (ex_params ''m'' (Some ''eu-central-1'')))
   \<and> p_region (ex_params ''m'' (Some ''eu-central-1'')) \<noteq> Some ''us-west-2''
   \<and> fst (init (ex_server 200 [] (Inl [])) (ex_params ''m'' (Some ''eu-central-1'')) ex_client)
       = Inr \<lparr>r_sessionId = Some ''ext'', r_available = Some False\<rparr>
   \<and> sent (snd (init (ex_server 200 [] (Inl [])) (ex_params ''m'' (Some ''eu-central-1''))
        ex_client)) = []"
  using init_other_region
    [of "ex_params ''m'' (Some ''eu-central-1'')" "ex_server 200 [] (Inl [])" ex_client]
  by (simp add: ex_params_def ex_client_def truthy_def)

text \<open>
  C10 as stated fails: with an empty model API key the same call throws before the region
  is looked at.
\<close>

theorem init_other_region_counterexample:
  "fst (init (ex_server 200 [] (Inl [])) (ex_params [] (Some ''eu-central-1'')) ex_client)
     = Inl (StagehandAPIError (Some ''modelApiKey is required''))
   \<and> fst (init (ex_server 200 [] (Inl [])) (ex_params [] (Some ''eu-central-1'')) ex_client)
     \<noteq> Inr \<lparr>r_sessionId = Some ''ext'', r_available = Some False\<rparr>"
  by (simp add: init_def ex_params_def truthy_def)

text \<open>
  C1, as amended.  When the session-start request is answered with status 200 and a
  successful payload, the client stores the server-returned session id in every case.
  With \<^verbatim>\<open>available: true\<close> the returned result is the server's data unchanged; when the
  session is not marked available and the caller supplied a non-empty external session
  id, it is the \<^emph>\<open>returned\<close> result whose session id is replaced by the caller's.
\<close>

theorem init_session_id:
  assumes "truthy (p_modelApiKey p)"
    and "\<not> (truthy (p_region p) \<and> p_region p \<noteq> Some ''us-west-2'')"
    and "s_status (server \<lparr>req_method = ''POST'', req_path = ''/sessions/start''\<rparr>) = 200"
    and "s_json (server \<lparr>req_method = ''POST'', req_path = ''/sessions/start''\<rparr>) = Inr body"
    and "b_success body"
    and "b_data body = Some d"
  shows "sessionId (snd (init server p c)) = r_sessionId d
       \<and> (r_available d = Some True \<longrightarrow> fst (init server p c) = Inr d)
       \<and> (r_available d \<noteq> Some True \<and> truthy (p_browserbaseSessionID p) \<longrightarrow>
            fst (init server p c) = Inr (d\<lparr>r_sessionId := p_browserbaseSessionID p\<rparr>))"
  using assms by (auto simp add: init_def request_def logger_def Let_def)

text \<open>The amended C1 at an unavailable and at an available session.\<close>

theorem init_session_id_witness:
  "sessionId (snd (init (ex_server 200 [] (Inr (ex_body True False))) (ex_params ''m'' None)
      ex_client)) = Some ''srv''
   \<and> fst (init (ex_server 200 [] (Inr (ex_body True False))) (ex_params ''m'' None) ex_client)
       = Inr \<lparr>r_sessionId = Some ''ext'', r_available = Some False\<rparr>
   \<and> fst (init (ex_server 200 [] (Inr (ex_body True True))) (ex_params ''m'' None) ex_client)
       = Inr \<lparr>r_sessionId = Some ''srv'', r_available = Some True\<rparr>"
  using init_session_id
      [of "ex_params ''m'' None" "ex_server 200 [] (Inr (ex_body True False))"
          "ex_body True False" "\<lparr>r_sessionId = Some ''srv'', r_available = Some False\<rparr>" ex_client]
    init_session_id
      [of "ex_params ''m'' None" "ex_server 200 [] (Inr (ex_body True True))"
          "ex_body True True" "\<lparr>r_sessionId = Some ''srv'', r_available = Some True\<rparr>" ex_client]
  by (simp add: ex_params_def ex_server_def ex_body_def truthy_def)

text \<open>
  C1 as stated fails: the server answers \<^verbatim>\<open>available: false\<close> with the id \<^verbatim>\<open>srv\<close>, the
  caller supplied \<^verbatim>\<open>ext\<close>; the client keeps \<^verbatim>\<open>srv\<close>, and the teardown that follows
  is sent to the server's session.
\<close>

theorem init_session_id_counterexample:
  "sessionId (snd (init (ex_server 200 [] (Inr (ex_body True False))) (ex_params ''m'' None)
      ex_client)) = Some ''srv''
   \<and> p_browserbaseSessionID (ex_params ''m'' None) = Some ''ext''
   \<and> req_path (last (sent (snd (end_session (\<lambda>rq. ())
        (snd (init (ex_server 200 [] (Inr (ex_body True False))) (ex_params ''m'' None)
           ex_client))))))
     = ''/sessions/srv/end''"
  by (simp add: init_def ex_params_def ex_body_def ex_server_def ex_client_def truthy_def
      request_def logger_def end_session_def show_opt_def)

text \<open>
  C6, as amended.  For a session-start request that is sent: status 401 fails with the
  unauthorized error; any other status but 200 fails with an HTTP error whose message
  carries the status only, the response body going to the log; status 200 with
  \<^verbatim>\<open>success: false\<close> fails with an API error carrying the server's message; and status
  200 with a successful payload stores the returned session id on the client.
\<close>

theorem start_session_errors:
  assumes "truthy (p_modelApiKey p)"
    and "\<not> (truthy (p_region p) \<and> p_region p \<noteq> Some ''us-west-2'')"
    and "server \<lparr>req_method = ''POST'', req_path = ''/sessions/start''\<rparr> = resp"
  shows "(s_status resp = 401 \<longrightarrow>
            fst (init server p c) = Inl (StagehandAPIUnauthorizedError
              ''Unauthorized. Ensure you provided a valid API key.''))
       \<and> (s_status resp \<noteq> 401 \<and> s_status resp \<noteq> 200 \<longrightarrow>
            fst (init server p c)
              = Inl (StagehandHttpError (''Unknown error: '' @ show_nat (s_status resp)))
            \<and> last (logged (snd (init server p c)))
              = LogLine ''api''
                  (''API error ('' @ show_nat (s_status resp) @ ''): '' @ s_text resp) 0)
       \<and> (s_status resp = 200 \<longrightarrow> (\<forall>body. s_json resp = Inr body \<longrightarrow>
            (\<not> b_success body \<longrightarrow>
               fst (init server p c) = Inl (StagehandAPIError (b_message body)))
          \<and> (b_success body \<longrightarrow> (\<forall>d. b_data body = Some d \<longrightarrow>
               sessionId (snd (init server p c)) = r_sessionId d))))"
  using assms by (auto simp add: init_def request_def logger_def Let_def)

text \<open>The amended C6 at the statuses 401 and 500 and at a failing and a successful payload.\<close>

theorem start_session_errors_witness:
  "fst (init (ex_server 401 ''denied'' (Inl [])) (ex_params ''m'' None) ex_client)
     = Inl (StagehandAPIUnauthorizedError ''Unauthorized. Ensure you provided a valid API key.'')
   \<and> fst (init (ex_server 500 ''boom'' (Inl [])) (ex_params ''m'' None) ex_client)
     = Inl (StagehandHttpError ''Unknown error: 500'')
   \<and> last (logged (snd (init (ex_server 500 ''boom'' (Inl [])) (ex_params ''m'' None) ex_client)))
     = LogLine ''api'' ''API error (500): boom'' 0
   \<and> fst (init (ex_server 200 [] (Inr (ex_body False False))) (ex_params ''m'' None) ex_client)
     = Inl (StagehandAPIError (Some ''no capacity''))
   \<and> sessionId (snd (init (ex_server 200 [] (Inr (ex_body True True))) (ex_params ''m'' None)
        ex_client)) = Some ''srv''"
  using start_session_errors
      [of "ex_params ''m'' None" "ex_server 401 ''denied'' (Inl [])"
          "\<lparr>s_status = 401, s_text = ''denied'', s_json = Inl []\<rparr>" ex_client]
    start_session_errors
      [of "ex_params ''m'' None" "ex_server 500 ''boom'' (Inl [])"
          "\<lparr>s_status = 500, s_text = ''boom'', s_json = Inl []\<rparr>" ex_client]
    start_session_errors
      [of "ex_params ''m'' None" "ex_server 200 [] (Inr (ex_body False False))"
          "\<lparr>s_status = 200, s_text = [], s_json = Inr (ex_body False False)\<rparr>" ex_client]
    start_session_errors
      [of "ex_params ''m'' None" "ex_server 200 [] (Inr (ex_body True True))"
          "\<lparr>s_status = 200, s_text = [], s_json = Inr (ex_body True True)\<rparr>" ex_client]
  by (simp add: ex_params_def ex_server_def ex_body_def truthy_def show_nat_500)

text \<open>
  C6 as stated fails: for status 500 and the body \<^verbatim>\<open>boom\<close> the error is
  \<^verbatim>\<open>Unknown error: 500\<close>, in which the body does not occur.
\<close>

theorem start_session_errors_counterexample:
  "fst (init (ex_server 500 ''boom'' (Inl [])) (ex_params ''m'' None) ex_client)
     = Inl (StagehandHttpError ''Unknown error: 500'')
   \<and> \<not> sublist ''boom'' ''Unknown error: 500''"
proof -
  have "\<not> sublist ''boom'' ''Unknown error: 500''"
    by code_simp
  then show ?thesis
    by (simp add: init_def ex_params_def ex_server_def ex_client_def truthy_def request_def
        logger_def show_nat_500)
qed

section \<open>Replay metrics\<close>
















section \<open>Decoding the streamed response\<close>














declare read_loop.simps [simp del]








































section \<open>The replay step of a \<^verbatim>\<open>type\<close> action\<close>





section \<open>The generation loop\<close>

text \<open>
  A stop condition that holds whenever the step count is \<open>n\<close> makes the loop end, and
  the steps it returns are the model's answers, each but the last with tool calls and
  with the stop condition false.
\<close>

lemma generateText_bounded:
  assumes bound: "\<And>ss. length ss = n \<Longrightarrow> stopWhen ss"
  shows "length steps < n \<Longrightarrow> \<exists>r. generateText model stopWhen h steps st = Some r"
proof (induction "n - length steps" arbitrary: steps st)
  case 0
  then show ?case by simp
next
  case (Suc d)
  show ?case
  proof (cases "model steps")
    case (Inl e)
    then show ?thesis by (subst generateText.simps) simp
  next
    case (Inr step)
    obtain x st' where hs: "h step st = (x, st')" by (cases "h step st")
    show ?thesis
    proof (cases "x = None \<and> ev_toolCalls step \<noteq> [] \<and> \<not> stopWhen (steps @ [step])")
      case True
      then have "length (steps @ [step]) \<noteq> n" using bound by blast
      with Suc.prems have lt: "length (steps @ [step]) < n" by simp
      have "d = n - length (steps @ [step])" using Suc.hyps(2) by simp
      from Suc.hyps(1) [OF this lt, of st']
      obtain r where "generateText model stopWhen h (steps @ [step]) st' = Some r" by blast
      with Inr hs True show ?thesis by (subst generateText.simps) simp
    next
      case False
      with Inr hs show ?thesis
        by (subst generateText.simps) (cases x; auto)
    qed
  qed
qed

lemma generateText_steps:
  assumes bound: "\<And>ss. length ss = n \<Longrightarrow> stopWhen ss"
  shows "length steps < n \<Longrightarrow> generateText model stopWhen h steps st = Some (Inr ss, st') \<Longrightarrow>
     prefix steps ss \<and> length steps < length ss \<and> length ss \<le> n
     \<and> (\<forall>k. length steps \<le> k \<and> k < length ss \<longrightarrow> model (take k ss) = Inr (ss ! k))
     \<and> (\<forall>k. length steps \<le> k \<and> Suc k < length ss \<longrightarrow>
            ev_toolCalls (ss ! k) \<noteq> [] \<and> \<not> stopWhen (take (Suc k) ss))
     \<and> (ev_toolCalls (last ss) = [] \<or> stopWhen ss)"
proof (induction "n - length steps" arbitrary: steps st)
  case 0
  then show ?case by simp
next
  case (Suc d)
  from Suc.prems(2) obtain step where m: "model steps = Inr step"
    by (subst (asm) generateText.simps) (auto split: sum.splits)
  obtain x sx where hs: "h step st = (x, sx)" by (cases "h step st")
  from Suc.prems(2) m hs have x: "x = None"
    by (subst (asm) generateText.simps) (auto split: option.splits)
  show ?case
  proof (cases "ev_toolCalls step \<noteq> [] \<and> \<not> stopWhen (steps @ [step])")
    case True
    then have "length (steps @ [step]) \<noteq> n" using bound by blast
    with Suc.prems have lt: "length (steps @ [step]) < n" by simp
    have d: "d = n - length (steps @ [step])" using Suc.hyps(2) by simp
    from Suc.prems(2) m hs x True
    have rec: "generateText model stopWhen h (steps @ [step]) sx = Some (Inr ss, st')"
      by (subst (asm) generateText.simps) simp
    note ih = Suc.hyps(1) [OF d lt rec]
    from ih have pre: "prefix (steps @ [step]) ss" by blast
    then obtain rest where ss: "ss = steps @ step # rest" by (auto simp: prefix_def)
    have tk: "take (length steps) ss = steps" "ss ! length steps = step"
      "take (Suc (length steps)) ss = steps @ [step]"
      by (simp_all add: ss)
    have a: "model (take k ss) = Inr (ss ! k)" if "length steps \<le> k" "k < length ss" for k
    proof (cases "k = length steps")
      case True
      then show ?thesis using m tk by simp
    next
      case False
      with that ih show ?thesis by simp
    qed
    have b: "ev_toolCalls (ss ! k) \<noteq> [] \<and> \<not> stopWhen (take (Suc k) ss)"
      if "length steps \<le> k" "Suc k < length ss" for k
    proof (cases "k = length steps")
      case True
      then show ?thesis using \<open>ev_toolCalls step \<noteq> [] \<and> \<not> stopWhen (steps @ [step])\<close> tk by simp
    next
      case False
      with that ih show ?thesis by simp
    qed
    from ih a b pre show ?thesis
      by (auto simp: ss)
  next
    case False
    with Suc.prems(2) m hs x have ss: "ss = steps @ [step]"
      by (subst (asm) generateText.simps) auto
    have k: "k = length steps" if "length steps \<le> k" "k < length ss" for k
      using that ss by simp
    have "model (take k ss) = Inr (ss ! k)" if "length steps \<le> k" "k < length ss" for k
      using k [OF that] m ss by simp
    moreover have "length ss \<le> n" using Suc.prems(1) ss by simp
    ultimately show ?thesis using False ss by auto
  qed
qed

section \<open>The agent run\<close>

text \<open>What one step does to the completed flag, and when the step handler throws.\<close>

lemma process_tool_call_completed:
  "st_completed (process_tool_call env ev st tc) = (st_completed st \<or> toolName tc = ''close'')"
  by (simp add: process_tool_call_def agent_log_def Let_def)

lemma foldl_process_completed:
  "st_completed (foldl (process_tool_call env ev) st tcs)
     = (st_completed st \<or> list_ex (\<lambda>tc. toolName tc = ''close'') tcs)"
  by (induction tcs arbitrary: st) (auto simp add: process_tool_call_completed)

lemma handle_tool_calls_completed:
  "st_completed (snd (handle_tool_calls env ev st)) = (st_completed st \<or> has_close ev)"
  by (cases "ev_pageUrl ev")
     (auto simp add: handle_tool_calls_def Let_def foldl_process_completed has_close_def)

lemma handle_tool_calls_fst:
  "fst (handle_tool_calls env ev st) =
     (if ev_toolCalls ev \<noteq> []
      then (case ev_pageUrl ev of Inl e \<Rightarrow> Some e | Inr url \<Rightarrow> None)
      else None)"
  by (cases "ev_pageUrl ev") (simp_all add: handle_tool_calls_def Let_def)

lemma createStepHandler_completed:
  "st_completed (snd (createStepHandler env ev st)) = (st_completed st \<or> has_close ev)"
  by (simp add: createStepHandler_def handle_tool_calls_completed agent_log_def)

lemma createStepHandler_fst:
  "fst (createStepHandler env ev st) =
     (if ev_toolCalls ev \<noteq> []
      then (case ev_pageUrl ev of Inl e \<Rightarrow> Some e | Inr url \<Rightarrow> None)
      else None)"
  by (simp add: createStepHandler_def handle_tool_calls_fst)

lemma handleStop_bound: "length ss = n \<Longrightarrow> handleStop ss n"
  by (simp add: handleStop_def stepCountIs_def)

lemma stepCountIs_bound: "length ss = n \<Longrightarrow> stepCountIs n ss"
  by (simp add: stepCountIs_def)

lemma maxSteps_or_pos: "0 < d \<Longrightarrow> 0 < maxSteps_or d options"
  by (simp add: maxSteps_or_def split: option.splits)

lemma prepareAgent_ctx:
  assumes "prepareAgent h env options = (Inr ctx, ls)"
  shows "ctx_maxSteps ctx = maxSteps_or 20 options" and "ls = []"
    and "llmClient h = Some (ctx_client ctx)" and "hasLanguageModel (ctx_client ctx)"
    and "initialPageUrl env = Inr (ctx_initialPageUrl ctx)"
  using assms
  by (auto simp add: prepareAgent_def Let_def split: option.splits if_splits sum.splits)

lemma never_close_run:
  assumes good: "\<forall>hist. \<exists>s. model hist = Inr s \<and> ev_toolCalls s \<noteq> [] \<and> \<not> has_close s
                   \<and> \<not> isl (ev_pageUrl s)"
  shows "length steps < n \<Longrightarrow>
     \<exists>ss st'. generateText model (\<lambda>s. handleStop s n) (createStepHandler env) steps st
                = Some (Inr ss, st')
        \<and> length ss = n \<and> st_completed st' = st_completed st"
proof (induction "n - length steps" arbitrary: steps st)
  case 0
  then show ?case by simp
next
  case (Suc d)
  from good obtain s where s: "model steps = Inr s" "ev_toolCalls s \<noteq> []" "\<not> has_close s"
    "\<not> isl (ev_pageUrl s)" by blast
  obtain x sx where hs: "createStepHandler env s st = (x, sx)"
    by (cases "createStepHandler env s st")
  have x: "x = None" using createStepHandler_fst [of env s st] hs s(2,4)
    by (cases "ev_pageUrl s") auto
  have c: "st_completed sx = st_completed st"
    using createStepHandler_completed [of env s st] hs s(3) by simp
  have hstop: "handleStop (steps @ [s]) n = (Suc (length steps) = n)"
    using s(3) by (simp add: handleStop_def stepCountIs_def)
  show ?case
  proof (cases "Suc (length steps) = n")
    case True
    with s hs x c hstop show ?thesis
      by (subst generateText.simps) simp
  next
    case False
    with Suc.prems have lt: "length (steps @ [s]) < n" by simp
    have d: "d = n - length (steps @ [s])" using Suc.hyps(2) by simp
    from Suc.hyps(1) [OF d lt, of sx] c
    obtain ss st' where
      "generateText model (\<lambda>s. handleStop s n) (createStepHandler env) (steps @ [s]) sx
         = Some (Inr ss, st')" "length ss = n" "st_completed st' = st_completed st"
      by auto
    with s hs x hstop False show ?thesis
      by (subst generateText.simps) simp
  qed
qed

lemma close_first_run:
  assumes "model [] = Inr s" and "has_close s" and "\<not> isl (ev_pageUrl s)"
  shows "\<exists>st'. generateText model (\<lambda>s. handleStop s n) (createStepHandler env) [] st
            = Some (Inr [s], st') \<and> st_completed st'"
proof -
  obtain x sx where hs: "createStepHandler env s st = (x, sx)"
    by (cases "createStepHandler env s st")
  have x: "x = None" using createStepHandler_fst [of env s st] hs assms(3)
    by (cases "ev_pageUrl s") (auto split: if_splits)
  have c: "st_completed sx" using createStepHandler_completed [of env s st] hs assms(2) by simp
  have "handleStop [s] n" using assms(2) by (simp add: handleStop_def)
  with assms(1) hs x c show ?thesis
    by (subst generateText.simps) simp
qed

lemma finish_run_Inr:
  "finish_run env cl (Some (Inr ss, st))
     = Some (Inr (consolidateMetricsAndResult st (ev_text (last ss)) (totalUsage cl ss)),
             st_logged st)"
  by (simp add: finish_run_def)

lemma consolidate_completed:
  "res_completed (consolidateMetricsAndResult st t u) = st_completed st"
  "res_success (consolidateMetricsAndResult st t u) = st_completed st"
  "res_actions (consolidateMetricsAndResult st t u) = st_actions st"
  by (simp_all add: consolidateMetricsAndResult_def Let_def)

text \<open>The steps of a run of either variant.\<close>

lemma last_take_Suc: "Suc k \<le> length ss \<Longrightarrow> last (take (Suc k) ss) = ss ! k"
  by (simp add: take_Suc_conv_app_nth)

lemma base_run_steps:
  assumes "0 < n"
    and "generateText model (\<lambda>s. handleStop s n) (createStepHandler env) [] st = Some (Inr ss, st')"
  shows "ss \<noteq> [] \<and> length ss \<le> n
       \<and> (\<forall>k<length ss. model (take k ss) = Inr (ss ! k))
       \<and> (\<forall>k. Suc k < length ss \<longrightarrow> ev_toolCalls (ss ! k) \<noteq> [] \<and> \<not> has_close (ss ! k))
       \<and> (has_close (last ss) \<or> ev_toolCalls (last ss) = [] \<or> length ss = n)"
proof -
  have "length ([] :: step_event list) < n" using assms(1) by simp
  note g = generateText_steps [where stopWhen = "\<lambda>s. handleStop s n" and n = n,
      OF handleStop_bound this assms(2)]
  have "\<not> has_close (ss ! k)" if "Suc k < length ss" for k
  proof -
    from g that have "\<not> handleStop (take (Suc k) ss) n" by simp
    moreover have "last (take (Suc k) ss) = ss ! k" using that by (simp add: last_take_Suc)
    moreover have "take (Suc k) ss \<noteq> []" using that by auto
    ultimately show ?thesis by (auto simp add: handleStop_def split: if_splits)
  qed
  moreover have "has_close (last ss) \<or> ev_toolCalls (last ss) = [] \<or> length ss = n"
    using g by (auto simp add: handleStop_def stepCountIs_def split: if_splits)
  ultimately show ?thesis using g by auto
qed

lemma simplified_run_steps:
  assumes "0 < n"
    and "generateText model (stepCountIs n) h [] st = Some (Inr ss, st')"
  shows "ss \<noteq> [] \<and> length ss \<le> n
       \<and> (\<forall>k<length ss. model (take k ss) = Inr (ss ! k))
       \<and> (\<forall>k. Suc k < length ss \<longrightarrow> ev_toolCalls (ss ! k) \<noteq> [])
       \<and> (ev_toolCalls (last ss) = [] \<or> length ss = n)"
proof -
  have "length ([] :: step_event list) < n" using assms(1) by simp
  note g = generateText_steps [where stopWhen = "stepCountIs n" and n = n,
      OF stepCountIs_bound this assms(2)]
  then show ?thesis by (auto simp add: stepCountIs_def)
qed

lemma agent_execute_prepared:
  assumes "prepareAgent h env options = (Inr ctx, ls)"
  shows "agent_execute h env options = finish_run env (ctx_client ctx) (agent_run env ctx ls)"
  using assms by (simp add: agent_execute_def)

lemma agent_run_ends:
  assumes "prepareAgent h env options = (Inr ctx, ls)"
  shows "agent_run env ctx ls \<noteq> None"
proof -
  have "0 < ctx_maxSteps ctx"
    using prepareAgent_ctx(1) [OF assms] maxSteps_or_pos [of 20 options] by simp
  then have "length ([] :: step_event list) < ctx_maxSteps ctx" by simp
  from generateText_bounded [where stopWhen = "\<lambda>s. handleStop s (ctx_maxSteps ctx)",
      OF handleStop_bound this]
  show ?thesis unfolding agent_run_def by fastforce
qed

lemma agent_run_steps:
  assumes "prepareAgent h env options = (Inr ctx, ls)"
    and "agent_run env ctx ls = Some (Inr ss, st)"
  shows "ss \<noteq> [] \<and> length ss \<le> ctx_maxSteps ctx
       \<and> (\<forall>k<length ss. generateStep (ctx_client ctx) (take k ss) = Inr (ss ! k))
       \<and> (\<forall>k. Suc k < length ss \<longrightarrow> ev_toolCalls (ss ! k) \<noteq> [] \<and> \<not> has_close (ss ! k))
       \<and> (has_close (last ss) \<or> ev_toolCalls (last ss) = [] \<or> length ss = ctx_maxSteps ctx)"
proof -
  have "0 < ctx_maxSteps ctx"
    using prepareAgent_ctx(1) [OF assms(1)] maxSteps_or_pos [of 20 options] by simp
  from base_run_steps [OF this assms(2) [unfolded agent_run_def]] show ?thesis .
qed

lemma agent_run_three:
  assumes "prepareAgent h env options = (Inr ctx, ls)"
    and "opt_maxSteps options = Some 3"
    and "\<forall>hist. \<exists>s. generateStep (ctx_client ctx) hist = Inr s \<and> ev_toolCalls s \<noteq> []
            \<and> \<not> has_close s \<and> \<not> isl (ev_pageUrl s)"
  shows "\<exists>ss3 st3 r l. agent_run env ctx ls = Some (Inr ss3, st3) \<and> length ss3 = 3
            \<and> agent_execute h env options = Some (Inr r, l) \<and> \<not> res_completed r"
proof -
  have n: "ctx_maxSteps ctx = 3"
    using prepareAgent_ctx(1) [OF assms(1)] assms(2) by (simp add: maxSteps_or_def)
  have "length ([] :: step_event list) < 3" by simp
  from never_close_run [OF assms(3) this, of env "initial_state (ctx_initialPageUrl ctx) ls"]
  obtain ss3 st3 where r: "agent_run env ctx ls = Some (Inr ss3, st3)" "length ss3 = 3"
    "\<not> st_completed st3"
    unfolding agent_run_def n by (auto simp add: initial_state_def)
  show ?thesis
    using r agent_execute_prepared [OF assms(1)]
    by (simp add: finish_run_Inr consolidate_completed)
qed

lemma agent_run_close_first:
  assumes "prepareAgent h env options = (Inr ctx, ls)"
    and "generateStep (ctx_client ctx) [] = Inr s1" and "has_close s1"
    and "\<not> isl (ev_pageUrl s1)"
  shows "\<exists>st1 r l. agent_run env ctx ls = Some (Inr [s1], st1)
            \<and> agent_execute h env options = Some (Inr r, l) \<and> res_completed r"
proof -
  from close_first_run [where model = "generateStep (ctx_client ctx)" and s = s1
      and n = "ctx_maxSteps ctx" and env = env
      and st = "initial_state (ctx_initialPageUrl ctx) ls", OF assms(2,3,4)]
  obtain st1 where r: "agent_run env ctx ls = Some (Inr [s1], st1)" "st_completed st1"
    unfolding agent_run_def by auto
  show ?thesis
    using r agent_execute_prepared [OF assms(1)]
    by (simp add: finish_run_Inr consolidate_completed)
qed

lemma simplified_run_ends: "simplified_run h env options cl url \<noteq> None"
proof -
  have "length ([] :: step_event list) < maxSteps_or 10 options"
    using maxSteps_or_pos [of 10 options] by simp
  from generateText_bounded [where stopWhen = "stepCountIs (maxSteps_or 10 options)",
      OF stepCountIs_bound this]
  show ?thesis unfolding simplified_run_def by fastforce
qed

lemma simplified_steps:
  assumes "simplified_run h env options cl url = Some (Inr ss, st)"
  shows "ss \<noteq> [] \<and> length ss \<le> maxSteps_or 10 options
       \<and> (\<forall>k<length ss. generateStep cl (take k ss) = Inr (ss ! k))
       \<and> (\<forall>k. Suc k < length ss \<longrightarrow> ev_toolCalls (ss ! k) \<noteq> [])
       \<and> (ev_toolCalls (last ss) = [] \<or> length ss = maxSteps_or 10 options)"
  using simplified_run_steps [OF maxSteps_or_pos assms [unfolded simplified_run_def]] by simp

end
